theory Spec2Isabelle
  imports Complex_Main "HOL-Library.Sublist"
begin

section \<open>JavaScript values\<close>

text \<open>
  A JavaScript string is modelled as a \<open>string\<close>: each \<open>char\<close> stands for one UTF-16
  code unit, so \<open>length\<close> is \<open>.length\<close> and \<open>take n\<close> is \<open>.slice(0, n)\<close>. The model
  covers the strings whose code units are below 256 (URLs, numerals and the literals of
  the service are all ASCII).

  A value that is either a string or absent (\<open>undefined\<close> or \<open>null\<close>) is a
  \<open>string option\<close>. Such a value is truthy when it is a non-empty string.
\<close>

definition truthy :: "string option \<Rightarrow> bool" where
  "truthy v = (case v of None \<Rightarrow> False | Some s \<Rightarrow> s \<noteq> [])"

text \<open>
  \<open>s.replace(pat, rep)\<close> with a regular expression without the global flag rewrites the
  leftmost match only. \<open>replace_literal\<close> is that operation for a pattern that is a
  literal text (\<open>/\/thumbs\//\<close> and \<open>/-thumb\./\<close>).
\<close>

fun replace_literal :: "string \<Rightarrow> string \<Rightarrow> string \<Rightarrow> string" where
  "replace_literal pat rep [] = (if pat = [] then rep else [])"
| "replace_literal pat rep (c # cs) =
     (if prefix pat (c # cs) then rep @ drop (length pat) (c # cs)
      else c # replace_literal pat rep cs)"

text \<open>\<open>\d\<close> matches the ten ASCII digits.\<close>

definition is_digit :: "char \<Rightarrow> bool" where
  "is_digit c = (c \<in> set ''0123456789'')"

text \<open>
  \<open>match_size_suffix s\<close> is the length of the match of \<open>/\/s-l\d+\./\<close> that starts at the
  head of \<open>s\<close>, if there is one: the text \<open>/s-l\<close>, the longest run of digits (at least
  one), and a dot. The greedy \<open>\d+\<close> never has to give a digit back, since the character
  after a shorter run is a digit and not the dot.
\<close>

definition match_size_suffix :: "string \<Rightarrow> nat option" where
  "match_size_suffix s =
     (if prefix ''/s-l'' s then
        (let ds = takeWhile is_digit (drop 4 s) in
         if ds \<noteq> [] \<and> prefix ''.'' (drop (4 + length ds) s)
         then Some (4 + length ds + 1) else None)
      else None)"

fun replace_size_suffix :: "string \<Rightarrow> string" where
  "replace_size_suffix [] = []"
| "replace_size_suffix (c # cs) =
     (case match_size_suffix (c # cs) of
        Some n \<Rightarrow> ''/s-l1600.'' @ drop n (c # cs)
      | None \<Rightarrow> c # replace_size_suffix cs)"

section \<open>The resolution-upgrade transform\<close>

text \<open>
  \<^verbatim>\<open>convertToHighRes(url)\<close>: a falsy argument is returned as it is; otherwise the three
  replacements are applied in the order of the source.
\<close>

definition convertToHighRes :: "string option \<Rightarrow> string option" where
  "convertToHighRes url =
     (case url of
        None \<Rightarrow> None
      | Some u \<Rightarrow>
          if u = [] then Some u
          else Some (replace_literal ''-thumb.'' ''.''
                 (replace_size_suffix (replace_literal ''/thumbs/'' ''/'' u))))"

text \<open>
  A URL is canonical when none of the three rewrites has anything to do on it: it has no
  \<open>/thumbs/\<close> segment and no \<open>-thumb.\<close> marker, and its leftmost size suffix, if it has
  one, is \<open>/s-l1600.\<close> already.
\<close>

fun occurs :: "string \<Rightarrow> string \<Rightarrow> bool" where
  "occurs pat [] = (pat = [])"
| "occurs pat (c # cs) = (prefix pat (c # cs) \<or> occurs pat cs)"

fun size_suffix_canonical :: "string \<Rightarrow> bool" where
  "size_suffix_canonical [] = True"
| "size_suffix_canonical (c # cs) =
     (case match_size_suffix (c # cs) of
        Some n \<Rightarrow> take n (c # cs) = ''/s-l1600.''
      | None \<Rightarrow> size_suffix_canonical cs)"

definition canonical :: "string option \<Rightarrow> bool" where
  "canonical url =
     (case url of
        None \<Rightarrow> True
      | Some u \<Rightarrow> \<not> occurs ''/thumbs/'' u \<and> size_suffix_canonical u \<and> \<not> occurs ''-thumb.'' u)"

section \<open>Image sets\<close>

text \<open>
  A JavaScript \<open>Set\<close> iterates in insertion order and holds each value once. It is
  modelled as the list of its members in insertion order: \<open>set_add\<close> is \<open>Set.add\<close>,
  \<open>new_Set xs\<close> is \<open>new Set(xs)\<close>, and \<open>Array.from\<close> and the spread of a set are the
  list itself.
\<close>

definition set_add :: "'a list \<Rightarrow> 'a \<Rightarrow> 'a list" where
  "set_add s x = (if x \<in> set s then s else s @ [x])"

definition new_Set :: "'a list \<Rightarrow> 'a list" where
  "new_Set xs = foldl set_add [] xs"

text \<open>
  A field that holds picture URLs is absent, a single string, or an array whose entries
  are strings or absent.
\<close>

datatype url_field = Absent | Single string | Array "string option list"

text \<open>
  The block the two extractors share:
  \<^verbatim>\<open>if (f) { const urls = Array.isArray(f) ? f : [f];
            urls.forEach((url) => { if (url) images.add(this.convertToHighRes(url)); }); }\<close>
\<close>

definition add_url :: "string option list \<Rightarrow> string option \<Rightarrow> string option list" where
  "add_url images url = (if truthy url then set_add images (convertToHighRes url) else images)"

definition add_urls :: "string option list \<Rightarrow> url_field \<Rightarrow> string option list" where
  "add_urls images f =
     (case f of
        Absent \<Rightarrow> images
      | Single s \<Rightarrow> if s = [] then images else foldl add_url images [Some s]
      | Array urls \<Rightarrow> foldl add_url images urls)"


section \<open>Listings\<close>

text \<open>
  A listing summary, as the search API returns it. The field \<open>value\<close> of a price is
  named \<open>priceValue\<close> here.
\<close>

record money =
  priceValue :: "string option"
  currencyId :: "string option"

record selling_status =
  currentPrice :: "money option"
  convertedCurrentPrice :: "money option"

record condition_info =
  conditionDisplayName :: "string option"

record listing_summary =
  itemId :: "string option"
  title :: "string option"
  galleryURL :: "string option"
  pictureURL :: url_field
  sellingStatus :: "selling_status option"
  condition :: "condition_info option"

text \<open>
  The item of a detail response. Every member that the code indexes with \<open>[0]\<close> is an
  array when present. The members \<open>GalleryURL\<close> and \<open>PictureURL\<close> of \<open>PictureDetails\<close>
  and the member \<open>PictureURL\<close> of a variation picture set carry a prefix here, since
  the fields of two records cannot share a name.
\<close>

record name_value =
  Name :: "string list option"
  Value :: "string list option"

record item_specifics =
  NameValueList :: "name_value list option"

record return_policy =
  ReturnsAccepted :: "string list option"
  ReturnsWithin :: "string list option"
  ShippingCostPaidBy :: "string list option"
  Refund :: "string list option"

record picture_details =
  pd_GalleryURL :: "string option list option"
  pd_PictureURL :: url_field

record picture_set =
  ps_PictureURL :: url_field

record variations =
  Pictures :: "picture_set list option"

record item =
  Description :: "string list option"
  PictureURL :: url_field
  GalleryURL :: "string option list option"
  PictureDetails :: "picture_details option"
  Variations :: "variations option"
  Quantity :: "string list option"
  ItemSpecifics :: "item_specifics list option"
  ReturnPolicy :: "return_policy list option"

text \<open>\<open>xs[0]\<close>: the first entry of an array, \<open>undefined\<close> on an empty one.\<close>

definition first :: "'a option list \<Rightarrow> 'a option" where
  "first xs = (case xs of [] \<Rightarrow> None | x # _ \<Rightarrow> x)"

definition first_string :: "string list \<Rightarrow> string option" where
  "first_string xs = (case xs of [] \<Rightarrow> None | x # _ \<Rightarrow> Some x)"

text \<open>\<^verbatim>\<open>extractBasicImages(listing)\<close>\<close>

definition extractBasicImages :: "listing_summary \<Rightarrow> string option list" where
  "extractBasicImages listing =
     (let images = [];
          images = (if truthy (galleryURL listing)
                    then set_add images (convertToHighRes (galleryURL listing))
                    else images)
      in add_urls images (pictureURL listing))"

text \<open>
  \<^verbatim>\<open>extractAllImages(item)\<close>. The gallery URL of \<open>PictureDetails\<close> is added without a
  test of its first entry, so an \<open>undefined\<close> or an empty string can enter the set there.
\<close>

definition add_picture_set :: "string option list \<Rightarrow> picture_set \<Rightarrow> string option list" where
  "add_picture_set images picSet = add_urls images (ps_PictureURL picSet)"

definition extractAllImages :: "item \<Rightarrow> string option list" where
  "extractAllImages it =
     (let images = [];
          images = add_urls images (PictureURL it);
          images = (case GalleryURL it of
                      None \<Rightarrow> images
                    | Some g \<Rightarrow>
                        if truthy (first g) then set_add images (convertToHighRes (first g))
                        else images);
          images = (case PictureDetails it of
                      None \<Rightarrow> images
                    | Some pd \<Rightarrow>
                        (let images = (case pd_GalleryURL pd of
                                         None \<Rightarrow> images
                                       | Some g \<Rightarrow> set_add images (convertToHighRes (first g)))
                         in add_urls images (pd_PictureURL pd)));
          images = (case Variations it of
                      None \<Rightarrow> images
                    | Some v \<Rightarrow>
                        (case Pictures v of
                           None \<Rightarrow> images
                         | Some pics \<Rightarrow> foldl add_picture_set images pics))
      in images)"

text \<open>
  An enriched listing: \<^verbatim>\<open>{ ...listing, ...additionalDetails, images, originalListing }\<close>.
  The members spread from the summary are read through \<open>originalListing\<close>, which holds
  the same values; \<open>description\<close>, \<open>details\<close> and \<open>images\<close> are the members the detail
  result adds or overwrites.
\<close>

record enriched_listing =
  originalListing :: listing_summary
  description :: "string option"
  details :: "item option"
  images :: "string option list"

text \<open>
  The result of the detail call: \<^verbatim>\<open>{ description, images, details }\<close>, or
  \<^verbatim>\<open>{ images: [] }\<close>.
\<close>

record additional_details =
  ad_description :: "string option"
  ad_images :: "string option list"
  ad_details :: "item option"

definition no_details :: additional_details where
  "no_details = \<lparr>ad_description = None, ad_images = [], ad_details = None\<rparr>"

section \<open>The remote services and the state of the service\<close>

text \<open>
  A thrown value, as far as the code inspects it: \<open>error?.response?.data\<close> when it is a
  string.
\<close>

datatype js_error = JsError (response_data: "string option")

record api_error =
  ShortMessage :: "string option"
  LongMessage :: "string option"
  ErrorCode :: "string option"

record single_item_response =
  Ack :: "string option"
  Errors :: "api_error list option"
  Item :: "item list option"

text \<open>
  What one POST to the detail API leads to: the request is rejected (a transport error or
  an error status), the body does not parse, or the body parses to a result with or
  without a \<open>GetSingleItemResponse\<close> member.
\<close>

datatype http_outcome =
    Rejected js_error
  | Malformed
  | Parsed "single_item_response option"

text \<open>
  What one call of the token endpoint leads to: a token response with its
  \<open>access_token\<close> member, or an error.
\<close>

datatype token_outcome = TokenOk "string option" | TokenFailed js_error

text \<open>What the search API answers for a page: an error, or a result with or without items.\<close>

datatype page_outcome = PageFailed | PageResult "listing_summary list option"

text \<open>
  The remote services: the answer to the \<open>n\<close>-th request to the detail API, the answer to
  the \<open>n\<close>-th awaited call of the token endpoint, and the answer of the search API for a
  page number.
\<close>

record env =
  detail_api :: "nat \<Rightarrow> http_outcome"
  token_endpoint :: "nat \<Rightarrow> token_outcome"
  search_api :: "nat \<Rightarrow> page_outcome"

text \<open>The log lines of the service, one constructor for each message.\<close>

datatype log_event =
    TokenRefreshed
  | TokenRefreshFailed
  | EbayApiError "string option" "string option"
  | ShoppingApiError
  | ProcessingListing
  | MissingItemId
  | ErrorProcessingListing
  | PageFound nat nat
  | ReachedEnd nat
  | NoMoreItems nat
  | ErrorFetchingPage nat

text \<open>
  The state: the application token, the item ids of the requests sent to the detail API,
  the number of awaited calls of the token endpoint, the number of refreshes started
  without being awaited, the pages requested from the search API, and the log.
  The rate limiter and the pauses only delay a call and are left out.
\<close>

record world =
  applicationToken :: "string option"
  requests :: "string list"
  token_calls :: nat
  background_refreshes :: nat
  pages_requested :: "nat list"
  logged :: "log_event list"

definition logs :: "log_event \<Rightarrow> world \<Rightarrow> world" where
  "logs e w = w\<lparr>logged := logged w @ [e]\<rparr>"

text \<open>\<^verbatim>\<open>refreshApplicationToken()\<close>, awaited: the failure is logged and thrown again.\<close>

definition refreshApplicationToken :: "env \<Rightarrow> world \<Rightarrow> (js_error + unit) \<times> world" where
  "refreshApplicationToken e w =
     (let w1 = w\<lparr>token_calls := Suc (token_calls w)\<rparr> in
      case token_endpoint e (token_calls w) of
        TokenOk t \<Rightarrow> (Inr (), logs TokenRefreshed (w1\<lparr>applicationToken := t\<rparr>))
      | TokenFailed err \<Rightarrow> (Inl err, logs TokenRefreshFailed w1))"

section \<open>The detail call\<close>

text \<open>
  The handler of one structured error entry: the entry is logged, and for the codes
  \<open>1.32\<close> and \<open>1.33\<close> a refresh is started and not awaited. The refresh completes at some
  later time; the state records that it was started.
\<close>

definition report_error :: "world \<Rightarrow> api_error \<Rightarrow> world" where
  "report_error w err =
     (let w1 = logs (EbayApiError (ShortMessage err) (LongMessage err)) w in
      if ErrorCode err = Some ''1.32'' \<or> ErrorCode err = Some ''1.33''
      then w1\<lparr>background_refreshes := Suc (background_refreshes w1)\<rparr>
      else w1)"

text \<open>\<^verbatim>\<open>if (!this.applicationToken) { await this.refreshApplicationToken(); }\<close>\<close>

definition ensure_token :: "env \<Rightarrow> world \<Rightarrow> (js_error + unit) \<times> world" where
  "ensure_token e w =
     (if \<not> truthy (applicationToken w) then refreshApplicationToken e w else (Inr (), w))"

text \<open>
  The \<^verbatim>\<open>try\<close> block of \<^verbatim>\<open>getShoppingApiDetails(itemId)\<close>, with \<open>iid\<close> for the
  parameter \<open>itemId\<close>: \<open>Inl\<close> is a value thrown inside the block. An empty \<open>Item\<close>
  array makes the read of \<open>item.Description\<close> throw. The request is answered by the
  detail API according to the number of requests sent before it.
\<close>

definition shoppingApiTry :: "env \<Rightarrow> world \<Rightarrow> string \<Rightarrow> (js_error + additional_details) \<times> world" where
  "shoppingApiTry e w iid =
     (case ensure_token e w of
        (Inl err, w1) \<Rightarrow> (Inl err, w1)
      | (Inr _, w1) \<Rightarrow>
          (let w2 = w1\<lparr>requests := requests w1 @ [iid]\<rparr> in
           case detail_api e (length (requests w1)) of
             Rejected err \<Rightarrow> (Inl err, w2)
           | Malformed \<Rightarrow> (Inl (JsError None), w2)
           | Parsed None \<Rightarrow> (Inr no_details, w2)
           | Parsed (Some resp) \<Rightarrow>
               if Ack resp = Some ''Failure'' then
                 (Inl (JsError None),
                  (case Errors resp of None \<Rightarrow> w2 | Some errs \<Rightarrow> foldl report_error w2 errs))
               else
                 (case Item resp of
                    None \<Rightarrow> (Inr no_details, w2)
                  | Some [] \<Rightarrow> (Inl (JsError None), w2)
                  | Some (it # _) \<Rightarrow>
                      (Inr \<lparr>ad_description = (case Description it of None \<Rightarrow> None
                                               | Some d \<Rightarrow> first_string d),
                            ad_images = extractAllImages it,
                            ad_details = Some it\<rparr>, w2))))"

text \<open>The test of the \<^verbatim>\<open>catch\<close> handler for the two invalid-token texts.\<close>

definition token_signal :: "js_error \<Rightarrow> bool" where
  "token_signal err =
     (case response_data err of
        None \<Rightarrow> False
      | Some d \<Rightarrow> occurs ''Invalid token'' d \<or> occurs ''Token not available'' d)"

text \<open>
  One pass through the body of \<^verbatim>\<open>getShoppingApiDetails\<close>: the \<^verbatim>\<open>try\<close> block and the
  \<^verbatim>\<open>catch\<close> handler, up to the recursive call. The handler catches every value thrown in
  the block, the \<open>Error\<close> of the acknowledgement check included; only a failure of the
  refresh it awaits itself leaves the function as an exception.
\<close>

datatype attempt = Return additional_details | Raise js_error | Retry

definition shoppingApiAttempt :: "env \<Rightarrow> world \<Rightarrow> string \<Rightarrow> attempt \<times> world" where
  "shoppingApiAttempt e w iid =
     (case shoppingApiTry e w iid of
        (Inr d, w1) \<Rightarrow> (Return d, w1)
      | (Inl err, w1) \<Rightarrow>
          (let w2 = logs ShoppingApiError w1 in
           if token_signal err then
             (case refreshApplicationToken e w2 of
                (Inl err', w3) \<Rightarrow> (Raise err', w3)
              | (Inr _, w3) \<Rightarrow> (Retry, w3))
           else (Return no_details, w2)))"

text \<open>
  \<^verbatim>\<open>getShoppingApiDetails(itemId)\<close>. The retry is a recursive call of the whole function,
  so the function returns \<open>None\<close> when it never returns.
\<close>

partial_function (option) getShoppingApiDetails ::
  "env \<Rightarrow> world \<Rightarrow> string \<Rightarrow> ((js_error + additional_details) \<times> world) option" where
  "getShoppingApiDetails e w iid =
     (case shoppingApiAttempt e w iid of
        (Return d, w1) \<Rightarrow> Some (Inr d, w1)
      | (Raise err, w1) \<Rightarrow> Some (Inl err, w1)
      | (Retry, w1) \<Rightarrow> getShoppingApiDetails e w1 iid)"

section \<open>The enricher\<close>

text \<open>The two records that the loop of \<^verbatim>\<open>getDetailedListings\<close> pushes.\<close>

definition success_record :: "listing_summary \<Rightarrow> additional_details \<Rightarrow> enriched_listing" where
  "success_record listing additionalDetails =
     (let basicImages = extractBasicImages listing;
          combinedImages = filter truthy (basicImages @ ad_images additionalDetails);
          uniqueImages = map convertToHighRes (new_Set combinedImages)
      in \<lparr>originalListing = listing,
          description = ad_description additionalDetails,
          details = ad_details additionalDetails,
          images = uniqueImages\<rparr>)"

definition fallback_record :: "listing_summary \<Rightarrow> enriched_listing" where
  "fallback_record listing =
     \<lparr>originalListing = listing, description = None, details = None,
      images = extractBasicImages listing\<rparr>"

text \<open>
  The body of the loop: the new value of \<open>detailedListings\<close> and the state, or \<open>None\<close>
  when the detail call never returns.
\<close>

definition enrich_listing ::
  "env \<Rightarrow> world \<Rightarrow> enriched_listing list \<Rightarrow> listing_summary \<Rightarrow>
   (enriched_listing list \<times> world) option" where
  "enrich_listing e w detailedListings listing =
     (let w1 = logs ProcessingListing w in
      case itemId listing of
        None \<Rightarrow> Some (detailedListings, logs MissingItemId w1)
      | Some i \<Rightarrow>
          if i = [] then Some (detailedListings, logs MissingItemId w1)
          else
            (case getShoppingApiDetails e w1 i of
               None \<Rightarrow> None
             | Some (Inr additionalDetails, w2) \<Rightarrow>
                 Some (detailedListings @ [success_record listing additionalDetails], w2)
             | Some (Inl err, w2) \<Rightarrow>
                 Some (detailedListings @ [fallback_record listing],
                       logs ErrorProcessingListing w2)))"

fun enrich_loop ::
  "env \<Rightarrow> world \<Rightarrow> enriched_listing list \<Rightarrow> listing_summary list \<Rightarrow>
   (enriched_listing list \<times> world) option" where
  "enrich_loop e w detailedListings [] = Some (detailedListings, w)"
| "enrich_loop e w detailedListings (listing # listings) =
     (case enrich_listing e w detailedListings listing of
        None \<Rightarrow> None
      | Some (detailedListings', w') \<Rightarrow> enrich_loop e w' detailedListings' listings)"

definition getDetailedListings ::
  "env \<Rightarrow> world \<Rightarrow> listing_summary list \<Rightarrow> (enriched_listing list \<times> world) option" where
  "getDetailedListings e w listings = enrich_loop e w [] listings"

text \<open>
  An answer of the detail API that makes the handler refresh the token and call again.
\<close>

definition retry_signal :: "http_outcome \<Rightarrow> bool" where
  "retry_signal r = (case r of Rejected err \<Rightarrow> token_signal err | _ \<Rightarrow> False)"

section \<open>The fetcher\<close>

text \<open>
  The loop of \<^verbatim>\<open>getAllEbayListings\<close> from page \<open>page\<close> on, for a page cap \<open>max_pages\<close>
  and a page size \<open>batch_size\<close>. A page that fails is logged and the loop goes on with
  the next page; a page without an \<open>item\<close> member and a page with fewer items than the
  page size end the loop.
\<close>

function fetch_pages ::
  "env \<Rightarrow> nat \<Rightarrow> nat \<Rightarrow> nat \<Rightarrow> listing_summary list \<Rightarrow> world \<Rightarrow>
   listing_summary list \<times> world" where
  "fetch_pages e max_pages batch_size page allItems w =
     (if page \<le> max_pages then
        (let w1 = w\<lparr>pages_requested := pages_requested w @ [page]\<rparr> in
         case search_api e page of
           PageFailed \<Rightarrow>
             fetch_pages e max_pages batch_size (Suc page) allItems
               (logs (ErrorFetchingPage page) w1)
         | PageResult None \<Rightarrow> (allItems, logs (NoMoreItems page) w1)
         | PageResult (Some items) \<Rightarrow>
             (let w2 = logs (PageFound page (length items)) w1 in
              if length items < batch_size
              then (allItems @ items, logs (ReachedEnd page) w2)
              else fetch_pages e max_pages batch_size (Suc page) (allItems @ items) w2))
      else (allItems, w))"
  by pat_completeness auto
termination
  by (relation "measure (\<lambda>(e, max_pages, batch_size, page, allItems, w). Suc max_pages - page)")
     auto

declare fetch_pages.simps [simp del]

definition BATCH_SIZE :: nat where
  "BATCH_SIZE = 10"

definition MAX_PAGES :: nat where
  "MAX_PAGES = 1"

definition getAllEbayListings :: "env \<Rightarrow> world \<Rightarrow> listing_summary list \<times> world" where
  "getAllEbayListings e w = fetch_pages e MAX_PAGES BATCH_SIZE 1 [] w"

text \<open>
  The contract of the fetcher in the words of the specification. A page stops the
  paging when it answers without items or with fewer items than a full page; the pages
  fetched are the pages up to the first such page, or up to the cap; the result is the
  concatenation of the items of the pages fetched. \<open>page_log\<close> is what the fetcher
  logs for a page.
\<close>

definition page_items :: "env \<Rightarrow> nat \<Rightarrow> listing_summary list" where
  "page_items e page =
     (case search_api e page of PageResult (Some items) \<Rightarrow> items | _ \<Rightarrow> [])"

definition last_page :: "env \<Rightarrow> nat \<Rightarrow> nat \<Rightarrow> bool" where
  "last_page e batch_size page =
     (case search_api e page of
        PageFailed \<Rightarrow> False
      | PageResult None \<Rightarrow> True
      | PageResult (Some items) \<Rightarrow> length items < batch_size)"

fun pages_until_stop :: "env \<Rightarrow> nat \<Rightarrow> nat list \<Rightarrow> nat list" where
  "pages_until_stop e batch_size [] = []"
| "pages_until_stop e batch_size (page # pages) =
     (if last_page e batch_size page then [page]
      else page # pages_until_stop e batch_size pages)"

definition page_log :: "env \<Rightarrow> nat \<Rightarrow> nat \<Rightarrow> log_event list" where
  "page_log e batch_size page =
     (case search_api e page of
        PageFailed \<Rightarrow> [ErrorFetchingPage page]
      | PageResult None \<Rightarrow> [NoMoreItems page]
      | PageResult (Some items) \<Rightarrow>
          PageFound page (length items) #
          (if length items < batch_size then [ReachedEnd page] else []))"

definition spec_pages :: "env \<Rightarrow> nat \<Rightarrow> nat \<Rightarrow> nat list" where
  "spec_pages e max_pages batch_size = pages_until_stop e batch_size [1..<Suc max_pages]"

definition spec_listings :: "env \<Rightarrow> nat \<Rightarrow> nat \<Rightarrow> listing_summary list" where
  "spec_listings e max_pages batch_size =
     concat (map (page_items e) (spec_pages e max_pages batch_size))"

section \<open>The mapper\<close>

text \<open>
  The numbers of the product. \<open>parseInt(s, 10)\<close> skips leading white space, reads a sign
  and the longest run of digits, and is \<open>NaN\<close> when there is no digit. \<open>parseFloat(s)\<close>
  does the same for the longest prefix that is a decimal literal. The models return the
  exact value; JavaScript rounds it to a double and tells \<open>-0\<close> from \<open>0\<close>.
\<close>

datatype js_int = IntNaN | IntNum int

datatype js_float = FloatNaN | FloatInfinity bool | Finite rat

definition is_space :: "char \<Rightarrow> bool" where
  "is_space c = (c \<in> set [CHR 0x09, CHR 0x0A, CHR 0x0B, CHR 0x0C, CHR 0x0D, CHR 0x20, CHR 0xA0])"

definition digits_val :: "string \<Rightarrow> nat" where
  "digits_val ds = foldl (\<lambda>n c. 10 * n + (of_char c - 48)) 0 ds"

definition strip_sign :: "string \<Rightarrow> bool \<times> string" where
  "strip_sign s =
     (case s of
        [] \<Rightarrow> (False, [])
      | c # cs \<Rightarrow>
          if c = CHR ''-'' then (True, cs)
          else if c = CHR ''+'' then (False, cs)
          else (False, s))"

definition parseInt10 :: "string \<Rightarrow> js_int" where
  "parseInt10 s =
     (let (neg, r) = strip_sign (dropWhile is_space s);
          ds = takeWhile is_digit r
      in if ds = [] then IntNaN
         else IntNum (if neg then - int (digits_val ds) else int (digits_val ds)))"

definition exponent_part :: "string \<Rightarrow> bool \<times> nat" where
  "exponent_part s =
     (case s of
        [] \<Rightarrow> (False, 0)
      | c # cs \<Rightarrow>
          if c = CHR ''e'' \<or> c = CHR ''E'' then
            (let (neg, r) = strip_sign cs;
                 ds = takeWhile is_digit r
             in if ds = [] then (False, 0) else (neg, digits_val ds))
          else (False, 0))"

definition parseFloat :: "string \<Rightarrow> js_float" where
  "parseFloat s =
     (let (neg, r) = strip_sign (dropWhile is_space s) in
      if prefix ''Infinity'' r then FloatInfinity neg
      else
        (let ip = takeWhile is_digit r;
             r1 = dropWhile is_digit r;
             fp = (case r1 of [] \<Rightarrow> []
                   | c # cs \<Rightarrow> if c = CHR ''.'' then takeWhile is_digit cs else []);
             r2 = (case r1 of [] \<Rightarrow> []
                   | c # cs \<Rightarrow> if c = CHR ''.'' then dropWhile is_digit cs else r1)
         in if ip = [] \<and> fp = [] then FloatNaN
            else
              (let (eneg, ev) = exponent_part r2;
                   m = of_nat (digits_val (ip @ fp));
                   v = (if eneg then m / 10 ^ (length fp + ev)
                        else m * 10 ^ ev / 10 ^ length fp)
               in Finite (if neg then - v else v))))"

text \<open>\<open>v || d\<close> for a string or absent \<open>v\<close>, \<open>xs.join(sep)\<close> and \<open>s.trim()\<close>.\<close>

definition or_else :: "string option \<Rightarrow> string \<Rightarrow> string" where
  "or_else v d = (case v of None \<Rightarrow> d | Some s \<Rightarrow> if s = [] then d else s)"

fun join :: "string \<Rightarrow> string list \<Rightarrow> string" where
  "join sep [] = []"
| "join sep [x] = x"
| "join sep (x # y # ys) = x @ sep @ join sep (y # ys)"

definition trim :: "string \<Rightarrow> string" where
  "trim s = rev (dropWhile is_space (rev (dropWhile is_space s)))"

text \<open>
  An array or absent value inside a template literal: the entries joined by a comma, or
  the text \<open>undefined\<close>.
\<close>

definition template_text :: "string list option \<Rightarrow> string" where
  "template_text v = (case v of None \<Rightarrow> ''undefined'' | Some xs \<Rightarrow> join '','' xs)"

text \<open>
  The product. The nested objects \<open>priceData\<close> and \<open>inventory\<close> are records; the two
  tags of \<open>seoData\<close> are the fields \<open>seo_title\<close> and \<open>seo_meta_description\<close>; the members
  \<open>description\<close> of the product and \<open>title\<close> and \<open>description\<close> of a section carry a
  prefix. The random \<open>sku\<close> is an argument of the mapper.
\<close>

record price_data =
  currency :: string
  price :: js_float

record inventory =
  status :: string
  quantity :: js_int
  trackQuantity :: bool

record info_section =
  section_title :: string
  section_description :: string

record wix_product =
  name :: "string option"
  productType :: string
  priceData :: price_data
  product_description :: "string option"
  sku :: string
  visible :: bool
  weight :: nat
  ribbon :: string
  inventory :: inventory
  additionalInfoSections :: "info_section list"
  brand :: string
  seo_title :: string
  seo_meta_description :: string

text \<open>\<open>listing.details?.ItemSpecifics?.[0]?.NameValueList\<close>\<close>

definition nameValueList_of :: "enriched_listing \<Rightarrow> name_value list option" where
  "nameValueList_of listing =
     (case details listing of
        None \<Rightarrow> None
      | Some it \<Rightarrow>
          (case ItemSpecifics it of
             None \<Rightarrow> None
           | Some [] \<Rightarrow> None
           | Some (sp # _) \<Rightarrow> NameValueList sp))"

text \<open>\<^verbatim>\<open>extractBrand(listing)\<close>\<close>

definition extractBrand :: "enriched_listing \<Rightarrow> string" where
  "extractBrand listing =
     (case nameValueList_of listing of
        None \<Rightarrow> []
      | Some nvl \<Rightarrow>
          (case find (\<lambda>spec. case Name spec of None \<Rightarrow> False
                              | Some ns \<Rightarrow> first_string ns = Some ''Brand'') nvl of
             None \<Rightarrow> []
           | Some spec \<Rightarrow>
               (case Value spec of
                  None \<Rightarrow> []
                | Some vs \<Rightarrow> or_else (first_string vs) [])))"

text \<open>\<^verbatim>\<open>formatItemSpecifics(nameValueList)\<close>\<close>

definition formatItemSpecifics :: "name_value list option \<Rightarrow> string" where
  "formatItemSpecifics nameValueList =
     (case nameValueList of
        None \<Rightarrow> []
      | Some nvl \<Rightarrow>
          join [CHR 0x0A, CHR 0x0A]
            (map (\<lambda>it. ''**'' @ template_text (Name it) @ '':** '' @
                        (case Value it of None \<Rightarrow> ''undefined'' | Some vs \<Rightarrow> join '', '' vs))
               nvl))"

text \<open>\<^verbatim>\<open>formatReturnPolicy(returnPolicy)\<close>\<close>

definition policy_line :: "string \<Rightarrow> string list option \<Rightarrow> string list" where
  "policy_line label v = (case v of None \<Rightarrow> [] | Some xs \<Rightarrow> [label @ join '','' xs])"

definition formatReturnPolicy :: "return_policy option \<Rightarrow> string" where
  "formatReturnPolicy returnPolicy =
     (case returnPolicy of
        None \<Rightarrow> []
      | Some rp \<Rightarrow>
          join [CHR 0x0A]
            (policy_line ''Returns: '' (ReturnsAccepted rp) @
             policy_line ''Return Window: '' (ReturnsWithin rp) @
             policy_line ''Return Shipping: Paid by '' (ShippingCostPaidBy rp) @
             policy_line ''Refund Type: '' (Refund rp)))"

text \<open>\<open>listing.condition?.conditionDisplayName || ''\<close>\<close>

definition condition_name :: "enriched_listing \<Rightarrow> string" where
  "condition_name listing =
     (case condition (originalListing listing) of
        None \<Rightarrow> []
      | Some c \<Rightarrow> or_else (conditionDisplayName c) [])"

text \<open>\<^verbatim>\<open>createMetaDescription(listing)\<close>\<close>

definition createMetaDescription :: "enriched_listing \<Rightarrow> string" where
  "createMetaDescription listing =
     (let cond = condition_name listing;
          brand = extractBrand listing;
          baseDesc = or_else (title (originalListing listing)) []
      in take 160 (trim (cond @ '' '' @ brand @ '' '' @ baseDesc)))"

text \<open>
  The texts that \<^verbatim>\<open>convertToWixProduct\<close> parses: the price value
  \<open>currentPrice?.value || convertedCurrentPrice?.value || '0'\<close> and the quantity
  \<open>details?.Quantity?.[0] || '1'\<close>.
\<close>

definition money_value :: "money option \<Rightarrow> string option" where
  "money_value m = (case m of None \<Rightarrow> None | Some a \<Rightarrow> priceValue a)"

definition price_text :: "enriched_listing \<Rightarrow> string" where
  "price_text listing =
     (case sellingStatus (originalListing listing) of
        None \<Rightarrow> ''0''
      | Some st \<Rightarrow>
          or_else (money_value (currentPrice st))
            (or_else (money_value (convertedCurrentPrice st)) ''0''))"

definition currency_text :: "enriched_listing \<Rightarrow> string" where
  "currency_text listing =
     (case sellingStatus (originalListing listing) of
        None \<Rightarrow> ''USD''
      | Some st \<Rightarrow>
          (case currentPrice st of
             None \<Rightarrow> ''USD''
           | Some a \<Rightarrow> or_else (currencyId a) ''USD''))"

definition quantity_text :: "enriched_listing \<Rightarrow> string" where
  "quantity_text listing =
     (case details listing of
        None \<Rightarrow> ''1''
      | Some it \<Rightarrow>
          (case Quantity it of
             None \<Rightarrow> ''1''
           | Some q \<Rightarrow> or_else (first_string q) ''1''))"

text \<open>\<^verbatim>\<open>convertToWixProduct(listing)\<close>\<close>

definition convertToWixProduct :: "string \<Rightarrow> enriched_listing \<Rightarrow> wix_product" where
  "convertToWixProduct random_sku listing =
     (let itemSpecifics = formatItemSpecifics (nameValueList_of listing) in
      \<lparr>name = title (originalListing listing),
       productType = ''physical'',
       priceData = \<lparr>currency = currency_text listing, price = parseFloat (price_text listing)\<rparr>,
       product_description =
         (case description listing of
            None \<Rightarrow> None
          | Some d \<Rightarrow> if 8000 < length d then Some (take 8000 d) else Some d),
       sku = random_sku,
       visible = True,
       weight = 0,
       ribbon = condition_name listing,
       inventory = \<lparr>status = ''IN_STOCK'', quantity = parseInt10 (quantity_text listing),
                    trackQuantity = True\<rparr>,
       additionalInfoSections =
         [\<lparr>section_title = ''Product Details'', section_description = itemSpecifics\<rparr>,
          \<lparr>section_title = ''Return Policy'',
           section_description =
             formatReturnPolicy
               (case details listing of
                  None \<Rightarrow> None
                | Some it \<Rightarrow>
                    (case ReturnPolicy it of
                       None \<Rightarrow> None
                     | Some [] \<Rightarrow> None
                     | Some (rp # _) \<Rightarrow> Some rp))\<rparr>],
       brand = (if extractBrand listing = [] then ''Unbranded'' else extractBrand listing),
       seo_title = or_else (title (originalListing listing)) [],
       seo_meta_description = createMetaDescription listing\<rparr>)"

section \<open>Example inputs\<close>

text \<open>
  A summary with an item id and a gallery URL and nothing else; an item with picture URLs
  and nothing else; answers of the detail API; remote services whose token endpoint
  always answers with a token and whose search API has no items; and the state of a
  service that holds a token and has not called anything yet.
\<close>

definition summary_of :: "string option \<Rightarrow> string option \<Rightarrow> listing_summary" where
  "summary_of i g =
     \<lparr>itemId = i, title = None, galleryURL = g, pictureURL = Absent,
      sellingStatus = None, condition = None\<rparr>"

definition item_with_pictures :: "url_field \<Rightarrow> item" where
  "item_with_pictures p =
     \<lparr>Description = None, PictureURL = p, GalleryURL = None, PictureDetails = None,
      Variations = None, Quantity = None, ItemSpecifics = None, ReturnPolicy = None\<rparr>"

definition success_response :: "item \<Rightarrow> http_outcome" where
  "success_response it = Parsed (Some \<lparr>Ack = Some ''Success'', Errors = None, Item = Some [it]\<rparr>)"


definition remote :: "(nat \<Rightarrow> http_outcome) \<Rightarrow> env" where
  "remote d =
     \<lparr>detail_api = d, token_endpoint = (\<lambda>n. TokenOk (Some ''fresh'')),
      search_api = (\<lambda>p. PageResult None)\<rparr>"

definition started :: world where
  "started =
     \<lparr>applicationToken = Some ''token'', requests = [], token_calls = 0,
      background_refreshes = 0, pages_requested = [], logged = []\<rparr>"

text \<open>
  A detail API that answers the first three requests with an invalid-token error and
  every later request with an empty result.
\<close>

definition invalid_token_thrice :: "nat \<Rightarrow> http_outcome" where
  "invalid_token_thrice n =
     (if n < 3 then Rejected (JsError (Some ''Invalid token'')) else Parsed None)"

text \<open>
  A search API with a page size of two: the first page is full, the second fails, the
  third has one item, and every later page is full.
\<close>

definition example_search :: "nat \<Rightarrow> page_outcome" where
  "example_search page =
     (if page = 2 then PageFailed
      else if page = 3 then PageResult (Some [summary_of (Some ''5'') None])
      else PageResult (Some [summary_of (Some ''1'') None, summary_of (Some ''2'') None]))"

definition searching :: "(nat \<Rightarrow> page_outcome) \<Rightarrow> env" where
  "searching s =
     \<lparr>detail_api = (\<lambda>n. Parsed None), token_endpoint = (\<lambda>n. TokenOk (Some ''fresh'')),
      search_api = s\<rparr>"

text \<open>An enriched listing in which every optional member is absent, but for a description.\<close>

definition bare_listing :: "string option \<Rightarrow> enriched_listing" where
  "bare_listing d =
     \<lparr>originalListing = summary_of (Some ''1'') None, description = d, details = None,
      images = []\<rparr>"



section \<open>Properties of the transform\<close>

lemma replace_literal_absent: "\<not> occurs pat s \<Longrightarrow> replace_literal pat rep s = s"
  by (induction s) auto

lemma replace_size_suffix_canonical: "size_suffix_canonical s \<Longrightarrow> replace_size_suffix s = s"
proof (induction s)
  case Nil
  then show ?case by simp
next
  case (Cons c cs)
  show ?case
  proof (cases "match_size_suffix (c # cs)")
    case None
    with Cons show ?thesis by simp
  next
    case (Some n)
    with Cons.prems have "take n (c # cs) = ''/s-l1600.''" by simp
    then have "''/s-l1600.'' @ drop n (c # cs) = take n (c # cs) @ drop n (c # cs)" by simp
    with Some show ?thesis by (simp del: append_take_drop_id add: append_take_drop_id [of n "c # cs"])
  qed
qed

lemma convertToHighRes_canonical: "canonical url \<Longrightarrow> convertToHighRes url = url"
  by (cases url)
     (simp_all add: canonical_def convertToHighRes_def replace_literal_absent
        replace_size_suffix_canonical)

lemma replace_literal_nonempty: "s \<noteq> [] \<Longrightarrow> rep \<noteq> [] \<Longrightarrow> replace_literal pat rep s \<noteq> []"
  by (cases s) auto

lemma replace_size_suffix_nonempty: "s \<noteq> [] \<Longrightarrow> replace_size_suffix s \<noteq> []"
  by (cases s) (auto split: option.splits)

lemma truthy_convertToHighRes: "truthy (convertToHighRes url) = truthy url"
  by (cases url)
     (simp_all add: truthy_def convertToHighRes_def replace_literal_nonempty
        replace_size_suffix_nonempty)

text \<open>
  C5 (as amended). The transform is a no-op on an absent and on an empty input and on
  every canonical URL, and applying it twice is the same as applying it once whenever the
  once-upgraded URL is canonical.
\<close>

theorem convertToHighRes_idempotent_on_canonical:
  "convertToHighRes None = None \<and> convertToHighRes (Some []) = Some [] \<and>
   (canonical url \<longrightarrow> convertToHighRes url = url) \<and>
   (canonical (convertToHighRes url) \<longrightarrow>
      convertToHighRes (convertToHighRes url) = convertToHighRes url)"
  using convertToHighRes_canonical [of url]
    convertToHighRes_canonical [of "convertToHighRes url"]
  by (simp add: convertToHighRes_def)

theorem convertToHighRes_idempotent_on_canonical_witness:
  "canonical (Some ''http://i.ebayimg.com/images/g/abc/s-l1600.jpg'') \<and>
   convertToHighRes (Some ''http://i.ebayimg.com/images/g/abc/s-l1600.jpg'') =
     Some ''http://i.ebayimg.com/images/g/abc/s-l1600.jpg'' \<and>
   convertToHighRes (Some ''http://i.ebayimg.com/thumbs/images/g/abc/s-l64.jpg'') =
     Some ''http://i.ebayimg.com/images/g/abc/s-l1600.jpg'' \<and>
   convertToHighRes (convertToHighRes (Some ''http://i.ebayimg.com/thumbs/images/g/abc/s-l64.jpg'')) =
     convertToHighRes (Some ''http://i.ebayimg.com/thumbs/images/g/abc/s-l64.jpg'')"
proof -
  have c: "canonical (Some ''http://i.ebayimg.com/images/g/abc/s-l1600.jpg'')"
    by (simp add: canonical_def match_size_suffix_def is_digit_def)
  have u: "convertToHighRes (Some ''http://i.ebayimg.com/thumbs/images/g/abc/s-l64.jpg'') =
     Some ''http://i.ebayimg.com/images/g/abc/s-l1600.jpg''"
    by (simp add: convertToHighRes_def match_size_suffix_def is_digit_def)
  from c u convertToHighRes_idempotent_on_canonical
         [of "Some ''http://i.ebayimg.com/images/g/abc/s-l1600.jpg''"]
       convertToHighRes_idempotent_on_canonical
         [of "Some ''http://i.ebayimg.com/thumbs/images/g/abc/s-l64.jpg''"]
  show ?thesis by simp
qed

text \<open>
  The transform is not idempotent on every URL: removing the \<open>-thumb\<close> marker of
  \<open>/s-l64-thumb.jpg\<close> uncovers the size suffix \<open>/s-l64.\<close>, which only a second
  application rewrites.
\<close>

theorem convertToHighRes_not_idempotent:
  "convertToHighRes (convertToHighRes (Some ''/s-l64-thumb.jpg'')) \<noteq>
     convertToHighRes (Some ''/s-l64-thumb.jpg'')"
  by (simp add: convertToHighRes_def match_size_suffix_def is_digit_def)

section \<open>Properties of image sets and of the extractors\<close>



lemma set_foldl_set_add: "set (foldl set_add acc xs) = set acc \<union> set xs"
  by (induction xs arbitrary: acc) (auto simp: set_add_def)

lemma distinct_foldl_set_add: "distinct acc \<Longrightarrow> distinct (foldl set_add acc xs)"
  by (induction xs arbitrary: acc) (auto simp: set_add_def)

lemma set_new_Set: "set (new_Set xs) = set xs"
  by (simp add: new_Set_def set_foldl_set_add)

lemma distinct_new_Set: "distinct (new_Set xs)"
  by (simp add: new_Set_def distinct_foldl_set_add)





lemma add_url_distinct: "distinct imgs \<Longrightarrow> distinct (add_url imgs url)"
  by (simp add: add_url_def set_add_def)

lemma add_url_truthy: "\<forall>u \<in> set imgs. truthy u \<Longrightarrow> \<forall>u \<in> set (add_url imgs url). truthy u"
  by (auto simp: add_url_def set_add_def truthy_convertToHighRes)

lemma foldl_add_url_distinct: "distinct imgs \<Longrightarrow> distinct (foldl add_url imgs urls)"
  by (induction urls arbitrary: imgs) (simp_all add: add_url_distinct)

lemma foldl_add_url_truthy:
  "\<forall>u \<in> set imgs. truthy u \<Longrightarrow> \<forall>u \<in> set (foldl add_url imgs urls). truthy u"
proof (induction urls arbitrary: imgs)
  case Nil
  then show ?case by simp
next
  case (Cons a urls)
  from Cons.prems have "\<forall>u \<in> set (add_url imgs a). truthy u" by (rule add_url_truthy)
  then show ?case using Cons.IH by simp
qed

lemma add_urls_distinct: "distinct imgs \<Longrightarrow> distinct (add_urls imgs f)"
  by (cases f) (simp_all add: add_urls_def foldl_add_url_distinct add_url_distinct)

lemma add_urls_truthy:
  "\<forall>u \<in> set imgs. truthy u \<Longrightarrow> \<forall>u \<in> set (add_urls imgs f). truthy u"
  using foldl_add_url_truthy [of imgs] add_url_truthy [of imgs]
  by (cases f) (simp_all add: add_urls_def)

lemma extractBasicImages_distinct: "distinct (extractBasicImages listing)"
  by (simp add: extractBasicImages_def Let_def add_urls_distinct set_add_def)

lemma extractBasicImages_truthy: "\<forall>u \<in> set (extractBasicImages listing). truthy u"
  unfolding extractBasicImages_def Let_def
  by (rule add_urls_truthy) (simp add: set_add_def truthy_convertToHighRes)

section \<open>Properties of the enricher\<close>





lemma images_success_record:
  "images (success_record listing d) =
     map convertToHighRes (new_Set (filter truthy (extractBasicImages listing @ ad_images d)))"
  by (simp add: success_record_def Let_def)

lemma success_images_truthy: "\<forall>u \<in> set (images (success_record listing d)). truthy u"
  by (auto simp: images_success_record set_new_Set truthy_convertToHighRes)

lemma success_images_distinct:
  "distinct (images (success_record listing d)) \<longleftrightarrow>
     inj_on convertToHighRes (set (filter truthy (extractBasicImages listing @ ad_images d)))"
  using distinct_new_Set [of "filter truthy (extractBasicImages listing @ ad_images d)"]
    set_new_Set [of "filter truthy (extractBasicImages listing @ ad_images d)"]
  by (simp add: images_success_record distinct_map)

lemma requests_logs [simp]: "requests (logs ev w) = requests w"
  by (simp add: logs_def)





lemma requests_report_error [simp]: "requests (report_error w err) = requests w"
  by (simp add: report_error_def Let_def)

lemma requests_report_errors [simp]: "requests (foldl report_error w errs) = requests w"
  by (induction errs arbitrary: w) simp_all

lemma token_signal_plain [simp]: "\<not> token_signal (JsError None)"
  by (simp add: token_signal_def)





lemma getShoppingApiDetails_Return:
  "shoppingApiAttempt e w i = (Return d, w1) \<Longrightarrow> getShoppingApiDetails e w i = Some (Inr d, w1)"
  by (simp add: getShoppingApiDetails.simps [of e w i])


lemma getShoppingApiDetails_Retry:
  "shoppingApiAttempt e w i = (Retry, w1) \<Longrightarrow>
   getShoppingApiDetails e w i = getShoppingApiDetails e w1 i"
  by (simp add: getShoppingApiDetails.simps [of e w i])

lemma originalListing_records [simp]:
  "originalListing (fallback_record l) = l" "originalListing (success_record l d) = l"
  by (simp_all add: fallback_record_def success_record_def Let_def)

lemma enrich_listing_cases:
  assumes "enrich_listing e w acc l = Some (out, w')"
  shows "(\<not> truthy (itemId l) \<and> out = acc) \<or>
         (truthy (itemId l) \<and> (out = acc @ [fallback_record l] \<or> (\<exists>d. out = acc @ [success_record l d])))"
  using assms
  by (auto simp: enrich_listing_def Let_def truthy_def
        split: option.splits if_splits prod.splits sum.splits)

lemma enrich_loop_shape:
  "enrich_loop e w acc ls = Some (out, w') \<Longrightarrow>
   \<exists>new. out = acc @ new \<and>
     map originalListing new = filter (\<lambda>l. truthy (itemId l)) ls \<and>
     (\<forall>r \<in> set new. r = fallback_record (originalListing r) \<or>
                      (\<exists>d. r = success_record (originalListing r) d))"
proof (induction ls arbitrary: w acc)
  case Nil
  then show ?case by simp
next
  case (Cons l ls)
  from Cons.prems obtain acc1 w1 where
    s: "enrich_listing e w acc l = Some (acc1, w1)" and
    r: "enrich_loop e w1 acc1 ls = Some (out, w')"
    by (auto split: option.splits)
  from Cons.IH [OF r] obtain new where
    n: "out = acc1 @ new" "map originalListing new = filter (\<lambda>l. truthy (itemId l)) ls"
       "\<forall>r \<in> set new. r = fallback_record (originalListing r) \<or>
                      (\<exists>d. r = success_record (originalListing r) d)"
    by blast
  from enrich_listing_cases [OF s] show ?case
  proof (elim disjE conjE exE)
    assume "\<not> truthy (itemId l)" "acc1 = acc"
    with n show ?thesis by auto
  next
    assume "truthy (itemId l)" "acc1 = acc @ [fallback_record l]"
    with n show ?thesis by (intro exI [of _ "fallback_record l # new"]) auto
  next
    fix d assume "truthy (itemId l)" "acc1 = acc @ [success_record l d]"
    with n show ?thesis by (intro exI [of _ "success_record l d # new"]) auto
  qed
qed








section \<open>Properties of the detail call\<close>

lemmas call_defs = shoppingApiAttempt_def shoppingApiTry_def ensure_token_def
  refreshApplicationToken_def token_signal_def logs_def truthy_def Let_def

lemma example_call_success:
  "Description it = None \<Longrightarrow>
   getShoppingApiDetails (remote (\<lambda>n. success_response it)) (logs ProcessingListing started) i =
     Some (Inr \<lparr>ad_description = None, ad_images = extractAllImages it, ad_details = Some it\<rparr>,
           (logs ProcessingListing started)\<lparr>requests := [i]\<rparr>)"
  by (intro getShoppingApiDetails_Return)
     (simp add: call_defs remote_def started_def success_response_def)




lemma shoppingApiAttempt_always_retries:
  assumes sig: "\<forall>n. retry_signal (detail_api e n)"
    and tok: "\<forall>n. \<exists>t. token_endpoint e n = TokenOk t"
  shows "\<exists>w1. shoppingApiAttempt e w i = (Retry, w1)"
proof -
  obtain t0 where t0: "token_endpoint e (token_calls w) = TokenOk t0" using tok by blast
  have "\<exists>w0. ensure_token e w = (Inr (), w0)"
    using t0 by (cases "truthy (applicationToken w)")
      (simp_all add: ensure_token_def refreshApplicationToken_def Let_def)
  then obtain w0 where w0: "ensure_token e w = (Inr (), w0)" by blast
  from sig have "retry_signal (detail_api e (length (requests w0)))" by blast
  then obtain err where r: "detail_api e (length (requests w0)) = Rejected err"
    and s: "token_signal err"
    by (auto simp: retry_signal_def split: http_outcome.splits)
  let ?w2 = "logs ShoppingApiError (w0\<lparr>requests := requests w0 @ [i]\<rparr>)"
  obtain t1 where t1: "token_endpoint e (token_calls ?w2) = TokenOk t1" using tok by blast
  then have "\<exists>w3. refreshApplicationToken e ?w2 = (Inr (), w3)"
    by (simp add: refreshApplicationToken_def Let_def)
  then obtain w3 where "refreshApplicationToken e ?w2 = (Inr (), w3)" by blast
  with w0 r s show ?thesis
    by (simp add: shoppingApiAttempt_def shoppingApiTry_def Let_def)
qed

lemma getShoppingApiDetails_never_returns:
  assumes sig: "\<forall>n. retry_signal (detail_api e n)"
    and tok: "\<forall>n. \<exists>t. token_endpoint e n = TokenOk t"
  shows "getShoppingApiDetails e w i = None"
proof -
  have "(\<forall>n. retry_signal (detail_api e n)) \<longrightarrow>
        (\<forall>n. \<exists>t. token_endpoint e n = TokenOk t) \<longrightarrow> False"
    if "getShoppingApiDetails e w i = Some y" for y
  proof (rule getShoppingApiDetails.raw_induct
      [where P = "\<lambda>e w i y. (\<forall>n. retry_signal (detail_api e n)) \<longrightarrow>
                             (\<forall>n. \<exists>t. token_endpoint e n = TokenOk t) \<longrightarrow> False", OF _ that])
    fix f :: "env \<Rightarrow> world \<Rightarrow> string \<Rightarrow> ((js_error + additional_details) \<times> world) option"
      and e' w' i' y'
    assume IH: "\<And>e w i y. f e w i = Some y \<Longrightarrow>
        (\<forall>n. retry_signal (detail_api e n)) \<longrightarrow>
        (\<forall>n. \<exists>t. token_endpoint e n = TokenOk t) \<longrightarrow> False"
    assume body: "(case shoppingApiAttempt e' w' i' of
         (Return d, w1) \<Rightarrow> Some (Inr d, w1)
       | (Raise err, w1) \<Rightarrow> Some (Inl err, w1)
       | (Retry, w1) \<Rightarrow> f e' w1 i') = Some y'"
    show "(\<forall>n. retry_signal (detail_api e' n)) \<longrightarrow>
          (\<forall>n. \<exists>t. token_endpoint e' n = TokenOk t) \<longrightarrow> False"
    proof (intro impI)
      assume s: "\<forall>n. retry_signal (detail_api e' n)"
        and t: "\<forall>n. \<exists>t. token_endpoint e' n = TokenOk t"
      from shoppingApiAttempt_always_retries [OF s t, of w' i']
      obtain w1 where "shoppingApiAttempt e' w' i' = (Retry, w1)" by blast
      with body have "f e' w1 i' = Some y'" by simp
      from IH [OF this] s t show False by blast
    qed
  qed
  with sig tok show ?thesis by (cases "getShoppingApiDetails e w i") auto
qed

text \<open>
  C3 (the code departs from the claim). The retry is a recursive call, so a retried call
  that fails with the invalid-token signal is retried again: for three such answers in a
  row the client sends four requests and refreshes the token three times.
\<close>

theorem invalid_token_retried_three_times:
  "map_option (\<lambda>(r, w). (r, requests w, token_calls w))
     (getShoppingApiDetails (remote invalid_token_thrice) started ''1'') =
   Some (Inr no_details, [''1'', ''1'', ''1'', ''1''], 3)"
proof -
  define w1 where "w1 = started\<lparr>applicationToken := Some ''fresh'', requests := [''1''],
     token_calls := 1, logged := [ShoppingApiError, TokenRefreshed]\<rparr>"
  define w2 where "w2 = w1\<lparr>requests := [''1'', ''1''], token_calls := 2,
     logged := logged w1 @ [ShoppingApiError, TokenRefreshed]\<rparr>"
  define w3 where "w3 = w2\<lparr>requests := [''1'', ''1'', ''1''], token_calls := 3,
     logged := logged w2 @ [ShoppingApiError, TokenRefreshed]\<rparr>"
  have a1: "shoppingApiAttempt (remote invalid_token_thrice) started ''1'' = (Retry, w1)"
    by (simp add: call_defs remote_def started_def invalid_token_thrice_def w1_def)
  have a2: "shoppingApiAttempt (remote invalid_token_thrice) w1 ''1'' = (Retry, w2)"
    by (simp add: call_defs remote_def started_def invalid_token_thrice_def w1_def w2_def)
  have a3: "shoppingApiAttempt (remote invalid_token_thrice) w2 ''1'' = (Retry, w3)"
    by (simp add: call_defs remote_def started_def invalid_token_thrice_def w1_def w2_def w3_def)
  have a4: "shoppingApiAttempt (remote invalid_token_thrice) w3 ''1'' =
              (Return no_details, w3\<lparr>requests := [''1'', ''1'', ''1'', ''1'']\<rparr>)"
    by (simp add: call_defs remote_def started_def invalid_token_thrice_def w1_def w2_def w3_def)
  have "getShoppingApiDetails (remote invalid_token_thrice) started ''1'' =
          Some (Inr no_details, w3\<lparr>requests := [''1'', ''1'', ''1'', ''1'']\<rparr>)"
    by (simp add: getShoppingApiDetails_Retry [OF a1] getShoppingApiDetails_Retry [OF a2]
          getShoppingApiDetails_Retry [OF a3] getShoppingApiDetails_Return [OF a4])
  then show ?thesis by (simp add: w3_def)
qed




section \<open>Counterexamples for the enricher\<close>


text \<open>
  The claim C7 as stated fails on the success path: the gallery URL \<open>/s-l64-thumb.jpg\<close>
  is \<open>/s-l64.jpg\<close> after the extractor and differs from the detail picture
  \<open>/s-l1600.jpg\<close> when the set is built; the upgrade after the set maps both to the same
  text.
\<close>

theorem success_images_duplicate_counterexample:
  "map_option (map images \<circ> fst)
     (getDetailedListings
        (remote (\<lambda>n. success_response (item_with_pictures (Single ''/s-l1600.jpg''))))
        started [summary_of (Some ''1'') (Some ''/s-l64-thumb.jpg'')]) =
   Some [[Some ''/s-l1600.jpg'', Some ''/s-l1600.jpg'']]"
  by (simp add: getDetailedListings_def enrich_listing_def example_call_success
        item_with_pictures_def summary_of_def success_record_def extractBasicImages_def
        extractAllImages_def add_urls_def add_url_def new_Set_def set_add_def
        convertToHighRes_def match_size_suffix_def is_digit_def truthy_def Let_def)


section \<open>The images of an enriched listing\<close>

lemma fallback_images_truthy: "\<forall>u \<in> set (images (fallback_record l)). truthy u"
  using extractBasicImages_truthy [of l] by (simp add: fallback_record_def)

lemma fallback_images_distinct: "distinct (images (fallback_record l))"
  by (simp add: fallback_record_def extractBasicImages_distinct)

text \<open>
  C7 (as amended). No image list of an enriched listing holds an absent or an empty
  entry. The list of a partial record has no duplicates. The list of a full record is
  the upgrade of a list without duplicates, so it has no duplicates exactly when the
  upgrade maps no two of the deduplicated URLs to the same text.
\<close>

theorem enriched_images_truthy_and_distinct_before_upgrade:
  assumes "getDetailedListings e w ls = Some (out, w')" and "r \<in> set out"
  shows "(\<forall>u \<in> set (images r). truthy u) \<and>
         ((r = fallback_record (originalListing r) \<and> distinct (images r)) \<or>
          (\<exists>d. r = success_record (originalListing r) d \<and>
               (distinct (images r) \<longleftrightarrow>
                  inj_on convertToHighRes
                    (set (filter truthy (extractBasicImages (originalListing r) @ ad_images d))))))"
proof -
  from assms(1) have "enrich_loop e w [] ls = Some (out, w')"
    by (simp add: getDetailedListings_def)
  from enrich_loop_shape [OF this] assms(2)
  have "r = fallback_record (originalListing r) \<or> (\<exists>d. r = success_record (originalListing r) d)"
    by auto
  then show ?thesis
  proof
    assume f: "r = fallback_record (originalListing r)"
    then have "distinct (images r)" "\<forall>u \<in> set (images r). truthy u"
      using fallback_images_distinct [of "originalListing r"]
        fallback_images_truthy [of "originalListing r"] by simp_all
    with f show ?thesis by blast
  next
    assume "\<exists>d. r = success_record (originalListing r) d"
    then obtain d where d: "r = success_record (originalListing r) d" by blast
    then have "\<forall>u \<in> set (images r). truthy u"
      using success_images_truthy [of "originalListing r" d] by simp
    moreover have "distinct (images r) \<longleftrightarrow>
        inj_on convertToHighRes
          (set (filter truthy (extractBasicImages (originalListing r) @ ad_images d)))"
      using success_images_distinct [of "originalListing r" d] d by simp
    ultimately show ?thesis using d by blast
  qed
qed

lemma Description_item_with_pictures: "Description (item_with_pictures p) = None"
  by (simp add: item_with_pictures_def)

lemma example_enrichment:
  "getDetailedListings (remote (\<lambda>n. success_response (item_with_pictures (Single ''/b.jpg''))))
     started [summary_of (Some ''1'') (Some ''/thumbs/a.jpg'')] =
   Some ([success_record (summary_of (Some ''1'') (Some ''/thumbs/a.jpg''))
            \<lparr>ad_description = None,
             ad_images = extractAllImages (item_with_pictures (Single ''/b.jpg'')),
             ad_details = Some (item_with_pictures (Single ''/b.jpg''))\<rparr>],
         (logs ProcessingListing started)\<lparr>requests := [''1'']\<rparr>)"
  by (simp add: getDetailedListings_def enrich_listing_def example_call_success
        Description_item_with_pictures Let_def summary_of_def)

theorem enriched_images_truthy_and_distinct_before_upgrade_witness:
  "\<exists>r w'. getDetailedListings
            (remote (\<lambda>n. success_response (item_with_pictures (Single ''/b.jpg''))))
            started [summary_of (Some ''1'') (Some ''/thumbs/a.jpg'')] = Some ([r], w') \<and>
          images r = [Some ''/a.jpg'', Some ''/b.jpg''] \<and>
          (\<forall>u \<in> set (images r). truthy u)"
proof -
  let ?r = "success_record (summary_of (Some ''1'') (Some ''/thumbs/a.jpg''))
            \<lparr>ad_description = None,
             ad_images = extractAllImages (item_with_pictures (Single ''/b.jpg'')),
             ad_details = Some (item_with_pictures (Single ''/b.jpg''))\<rparr>"
  have i: "images ?r = [Some ''/a.jpg'', Some ''/b.jpg'']"
    by (simp add: item_with_pictures_def summary_of_def success_record_def extractBasicImages_def
        extractAllImages_def add_urls_def add_url_def new_Set_def set_add_def
        convertToHighRes_def match_size_suffix_def is_digit_def truthy_def Let_def)
  from enriched_images_truthy_and_distinct_before_upgrade [OF example_enrichment, of ?r]
  have "\<forall>u \<in> set (images ?r). truthy u" by simp
  with i example_enrichment show ?thesis by blast
qed

section \<open>Properties of the fetcher\<close>

lemma upt_from: "page \<le> mp \<Longrightarrow> [page..<Suc mp] = page # [Suc page..<Suc mp]"
  by (simp add: upt_conv_Cons)

lemma fetch_pages_run:
  "fst (fetch_pages e mp bs page acc w) =
     acc @ concat (map (page_items e) (pages_until_stop e bs [page..<Suc mp])) \<and>
   pages_requested (snd (fetch_pages e mp bs page acc w)) =
     pages_requested w @ pages_until_stop e bs [page..<Suc mp] \<and>
   logged (snd (fetch_pages e mp bs page acc w)) =
     logged w @ concat (map (page_log e bs) (pages_until_stop e bs [page..<Suc mp]))"
proof (induction e mp bs page acc w rule: fetch_pages.induct)
  case (1 e mp bs page acc w)
  show ?case
  proof (cases "page \<le> mp")
    case False
    then show ?thesis by (simp add: fetch_pages.simps [of e mp bs page acc w])
  next
    case True
    note u = upt_from [OF True]
    show ?thesis
    proof (cases "search_api e page")
      case PageFailed
      with True "1.IH"(1) [OF True refl PageFailed] show ?thesis
        by (simp del: upt_Suc add: fetch_pages.simps [of e mp bs page acc w] u last_page_def page_items_def page_log_def logs_def)
    next
      case (PageResult r)
      show ?thesis
      proof (cases r)
        case None
        with True PageResult show ?thesis
          by (simp del: upt_Suc add: fetch_pages.simps [of e mp bs page acc w] u last_page_def page_items_def page_log_def logs_def)
      next
        case (Some items)
        show ?thesis
        proof (cases "length items < bs")
          case short: True
          with True PageResult Some show ?thesis
            by (simp del: upt_Suc add: fetch_pages.simps [of e mp bs page acc w] u last_page_def
                  page_items_def page_log_def logs_def Let_def)
        next
          case full: False
          from "1.IH"(2) [OF True refl PageResult Some refl full] True PageResult Some full
          show ?thesis
            by (simp del: upt_Suc add: fetch_pages.simps [of e mp bs page acc w] u last_page_def
                  page_items_def page_log_def logs_def Let_def)
        qed
      qed
    qed
  qed
qed

lemma pages_until_stop_prefix: "prefix (pages_until_stop e bs ps) ps"
  by (induction ps) simp_all

lemma pages_until_stop_continue:
  "list_all (\<lambda>p. \<not> last_page e bs p) (butlast (pages_until_stop e bs ps))"
  by (induction ps) simp_all

lemma pages_until_stop_Nil: "pages_until_stop e bs ps = [] \<longleftrightarrow> ps = []"
  by (cases ps) simp_all

lemma pages_until_stop_end:
  "pages_until_stop e bs ps = ps \<or> last_page e bs (last (pages_until_stop e bs ps))"
  by (induction ps) (auto simp: pages_until_stop_Nil)

lemma pages_until_stop_first:
  "last_page e bs p \<Longrightarrow> pages_until_stop e bs (p # ps) = [p]"
  by simp

text \<open>
  C9. The fetcher returns the concatenation, in page order, of the items of the pages it
  fetches. The pages fetched are the pages from 1 up to the first page that answers
  without items or with fewer items than a full page, and up to the page cap when there
  is no such page. A page that fails does not end the paging, and the failure is logged.
  When the first page has no items the result is empty. \<^verbatim>\<open>getAllEbayListings\<close> is this
  loop for the configured cap and page size.
\<close>

theorem fetch_pages_meets_contract:
  "fst (fetch_pages e max_pages batch_size 1 [] w) = spec_listings e max_pages batch_size \<and>
   pages_requested (snd (fetch_pages e max_pages batch_size 1 [] w)) =
     pages_requested w @ spec_pages e max_pages batch_size \<and>
   logged (snd (fetch_pages e max_pages batch_size 1 [] w)) =
     logged w @ concat (map (page_log e batch_size) (spec_pages e max_pages batch_size)) \<and>
   prefix (spec_pages e max_pages batch_size) [1..<Suc max_pages] \<and>
   list_all (\<lambda>p. \<not> last_page e batch_size p) (butlast (spec_pages e max_pages batch_size)) \<and>
   (spec_pages e max_pages batch_size = [1..<Suc max_pages] \<or>
    last_page e batch_size (last (spec_pages e max_pages batch_size))) \<and>
   (search_api e 1 = PageResult None \<or> search_api e 1 = PageResult (Some []) \<and> 0 < batch_size
      \<longrightarrow> fst (fetch_pages e max_pages batch_size 1 [] w) = []) \<and>
   getAllEbayListings e w = fetch_pages e MAX_PAGES BATCH_SIZE 1 [] w"
proof -
  have run: "fst (fetch_pages e max_pages batch_size 1 [] w) = spec_listings e max_pages batch_size"
    "pages_requested (snd (fetch_pages e max_pages batch_size 1 [] w)) =
       pages_requested w @ spec_pages e max_pages batch_size"
    "logged (snd (fetch_pages e max_pages batch_size 1 [] w)) =
       logged w @ concat (map (page_log e batch_size) (spec_pages e max_pages batch_size))"
    using fetch_pages_run [of e max_pages batch_size 1 "[]" w]
    by (simp_all add: spec_listings_def spec_pages_def)
  have empty: "spec_listings e max_pages batch_size = []"
    if "search_api e 1 = PageResult None \<or> search_api e 1 = PageResult (Some []) \<and> 0 < batch_size"
  proof (cases "1 \<le> max_pages")
    case False
    then show ?thesis by (simp add: spec_listings_def spec_pages_def)
  next
    case True
    from that have l: "last_page e batch_size 1" and i: "page_items e 1 = []"
      by (auto simp: last_page_def page_items_def)
    from True have "[1..<Suc max_pages] = 1 # [Suc 1..<Suc max_pages]" by (rule upt_from)
    with l i show ?thesis
      by (simp del: upt_Suc add: spec_listings_def spec_pages_def)
  qed
  show ?thesis
    using run empty pages_until_stop_prefix [of e batch_size "[1..<Suc max_pages]"]
      pages_until_stop_continue [of e batch_size "[1..<Suc max_pages]"]
      pages_until_stop_end [of e batch_size "[1..<Suc max_pages]"]
    by (simp del: upt_Suc add: spec_pages_def getAllEbayListings_def)
qed

theorem fetch_pages_meets_contract_witness:
  "fst (fetch_pages (searching example_search) 5 2 1 [] started) =
     [summary_of (Some ''1'') None, summary_of (Some ''2'') None, summary_of (Some ''5'') None] \<and>
   pages_requested (snd (fetch_pages (searching example_search) 5 2 1 [] started)) = [1, 2, 3] \<and>
   logged (snd (fetch_pages (searching example_search) 5 2 1 [] started)) =
     [PageFound 1 2, ErrorFetchingPage 2, PageFound 3 1, ReachedEnd 3] \<and>
   search_api (searching (\<lambda>p. PageResult None)) 1 = PageResult None \<and>
   fst (fetch_pages (searching (\<lambda>p. PageResult None)) 5 2 1 [] started) = []"
proof -
  have p: "spec_pages (searching example_search) 5 2 = [1, 2, 3]"
    by code_simp
  have a: "spec_listings (searching example_search) 5 2 =
      [summary_of (Some ''1'') None, summary_of (Some ''2'') None, summary_of (Some ''5'') None]"
    unfolding spec_listings_def p
    by (simp add: page_items_def searching_def example_search_def)
  have b: "concat (map (page_log (searching example_search) 2) [1, 2, 3]) =
      [PageFound 1 2, ErrorFetchingPage 2, PageFound 3 1, ReachedEnd 3]"
    by (simp add: page_log_def searching_def example_search_def)
  have c: "pages_requested started = []" "logged started = []"
    by (simp_all add: started_def)
  have d: "search_api (searching (\<lambda>p. PageResult None)) 1 = PageResult None"
    by (simp add: searching_def)
  from fetch_pages_meets_contract [of "searching (\<lambda>p. PageResult None)" 5 2 started] d
  have e: "fst (fetch_pages (searching (\<lambda>p. PageResult None)) 5 2 1 [] started) = []"
    by blast
  from fetch_pages_meets_contract [of "searching example_search" 5 2 started] d e show ?thesis
    unfolding a p b c by simp
qed

section \<open>Properties of the mapper\<close>

text \<open>
  C8. A description longer than 8000 characters is replaced by its prefix of exactly
  8000 characters, with nothing appended; a description of at most 8000 characters, and
  an absent one, is passed through unchanged.
\<close>

theorem description_truncated_to_maximum:
  "(description listing = None \<longrightarrow>
      product_description (convertToWixProduct random_sku listing) = None) \<and>
   (description listing = Some d \<and> 8000 < length d \<longrightarrow>
      product_description (convertToWixProduct random_sku listing) = Some (take 8000 d) \<and>
      length (take 8000 d) = 8000 \<and> prefix (take 8000 d) d) \<and>
   (description listing = Some d \<and> length d \<le> 8000 \<longrightarrow>
      product_description (convertToWixProduct random_sku listing) = Some d)"
  by (auto simp: convertToWixProduct_def Let_def take_is_prefix)

theorem description_truncated_to_maximum_witness:
  "description (bare_listing (Some (replicate 8001 CHR ''x''))) = Some (replicate 8001 CHR ''x'') \<and>
   8000 < length (replicate 8001 CHR ''x'') \<and>
   product_description (convertToWixProduct ''sku'' (bare_listing (Some (replicate 8001 CHR ''x'')))) =
     Some (replicate 8000 CHR ''x'') \<and>
   product_description (convertToWixProduct ''sku'' (bare_listing (Some ''short''))) = Some ''short'' \<and>
   product_description (convertToWixProduct ''sku'' (bare_listing None)) = None"
  using description_truncated_to_maximum
      [where listing = "bare_listing (Some (replicate 8001 CHR ''x''))"
        and d = "replicate 8001 CHR ''x''" and random_sku = "''sku''"]
    description_truncated_to_maximum
      [where listing = "bare_listing (Some ''short'')" and d = "''short''"
        and random_sku = "''sku''"]
    description_truncated_to_maximum
      [where listing = "bare_listing None" and random_sku = "''sku''"]
  by (simp add: bare_listing_def)





end
